theory Spec2Isabelle
  imports Complex_Main
begin

section \<open>The Speed Index audit (src/audits/performance/speed-index-metric.js)\<close>

subsection \<open>JavaScript values\<close>

text \<open>
  A JavaScript number is a double: a real, an infinity or NaN. The reals that occur are
  the results of the operations below, among which the product rounds to the nearest
  double; the sign of zero is not part of the model.
\<close>

datatype jsnum = Fin real | PosInf | NegInf | NaN

datatype jsval =
    Undefined
  | Null
  | Bool bool
  | Num jsnum
  | Str string
  | Arr "jsval list"
  | Obj "(string \<times> jsval) list"

text \<open>
  Any value can be thrown, and any value can be the reason a promise is rejected with.
  What \<^verbatim>\<open>new Error(m)\<close> makes, and what the engine makes when it raises a
  TypeError, is an object whose property \<^verbatim>\<open>message\<close> is the string.
\<close>

definition new_Error :: "string \<Rightarrow> jsval" where
  "new_Error m = Obj [(''message'', Str m)]"

definition new_TypeError :: "string \<Rightarrow> jsval" where
  "new_TypeError m = Obj [(''message'', Str m)]"

text \<open>ToBoolean, as \<^verbatim>\<open>!trace\<close> applies it.\<close>

fun truthy :: "jsval \<Rightarrow> bool" where
  "truthy Undefined = False"
| "truthy Null = False"
| "truthy (Bool b) = b"
| "truthy (Num (Fin r)) = (r \<noteq> 0)"
| "truthy (Num NaN) = False"
| "truthy (Num _) = True"
| "truthy (Str s) = (s \<noteq> [])"
| "truthy (Arr _) = True"
| "truthy (Obj _) = True"

text \<open>\<^verbatim>\<open>Array.isArray\<close>.\<close>

fun isArray :: "jsval \<Rightarrow> bool" where
  "isArray (Arr _) = True"
| "isArray _ = False"

text \<open>
  Reading the property \<^verbatim>\<open>name\<close> of a value, for a name that the prototypes of the
  primitives and of the arrays do not define (the source reads \<^verbatim>\<open>speedIndex\<close> and
  \<^verbatim>\<open>message\<close>): a TypeError on \<^verbatim>\<open>undefined\<close> and \<^verbatim>\<open>null\<close>, the
  property of an object, \<^verbatim>\<open>undefined\<close> where there is none. The wording of the
  TypeError is the engine's, here that of V8, which puts the name between single quotes.
\<close>

definition quoted :: "string \<Rightarrow> string" where
  "quoted name = [CHR 0x27] @ name @ [CHR 0x27]"

fun getProp :: "jsval \<Rightarrow> string \<Rightarrow> jsval + jsval" where
  "getProp Undefined name =
     Inl (new_TypeError (''Cannot read property '' @ quoted name @ '' of undefined''))"
| "getProp Null name =
     Inl (new_TypeError (''Cannot read property '' @ quoted name @ '' of null''))"
| "getProp (Obj ps) name = Inr (case map_of ps name of Some v \<Rightarrow> v | None \<Rightarrow> Undefined)"
| "getProp _ name = Inr Undefined"

text \<open>
  ToNumber. The conversion of a string, an array or an object goes through the host's
  parser of numeric literals, which is taken as the parameter \<open>conv\<close>.
\<close>

fun ToNumber :: "(jsval \<Rightarrow> jsnum) \<Rightarrow> jsval \<Rightarrow> jsnum" where
  "ToNumber conv Undefined = NaN"
| "ToNumber conv Null = Fin 0"
| "ToNumber conv (Bool b) = Fin (if b then 1 else 0)"
| "ToNumber conv (Num n) = n"
| "ToNumber conv v = conv v"

subsection \<open>The arithmetic of doubles\<close>

text \<open>
  The product of two doubles is the double nearest to the exact product, a tie going to
  the even significand. A double has a significand of 53 bits; the doubles of the binade
  of x, the powers of two that enclose it, are the multiples of \<open>ulp x\<close>, and below
  \<open>2 powr (- 1022)\<close> all doubles are multiples of \<open>2 powr (- 1074)\<close>. A product that
  rounds to \<open>2 powr 1024\<close> or more in size is an infinity.
\<close>

definition round_half_even :: "real \<Rightarrow> int" where
  "round_half_even m =
     (let f = \<lfloor>m\<rfloor>; d = m - of_int f
      in if d < 1 / 2 then f else if 1 / 2 < d then f + 1 else if even f then f else f + 1)"

definition binade :: "real \<Rightarrow> int" where
  "binade x = max (- 1022) \<lfloor>log 2 \<bar>x\<bar>\<rfloor>"

definition ulp :: "real \<Rightarrow> real" where
  "ulp x = 2 powr (of_int (binade x) - 52)"

definition nearest :: "real \<Rightarrow> real" where
  "nearest x = (if x = 0 then 0 else of_int (round_half_even (x / ulp x)) * ulp x)"

definition nearest_double :: "real \<Rightarrow> jsnum" where
  "nearest_double x =
     (if 2 powr 1024 \<le> nearest x then PosInf
      else if nearest x \<le> - (2 powr 1024) then NegInf
      else Fin (nearest x))"

subsection \<open>The operations the audit applies to the score\<close>

text \<open>\<^verbatim>\<open>100 * p\<close>, the product of doubles.\<close>

fun times100 :: "jsnum \<Rightarrow> jsnum" where
  "times100 (Fin p) = nearest_double (100 * p)"
| "times100 PosInf = PosInf"
| "times100 NegInf = NegInf"
| "times100 NaN = NaN"

text \<open>\<^verbatim>\<open>Math.min(100, score)\<close>: NaN if the argument is NaN.\<close>

fun Math_min_100 :: "jsnum \<Rightarrow> jsnum" where
  "Math_min_100 (Fin s) = Fin (min 100 s)"
| "Math_min_100 PosInf = Fin 100"
| "Math_min_100 NegInf = NegInf"
| "Math_min_100 NaN = NaN"

text \<open>\<^verbatim>\<open>Math.max(0, score)\<close>: NaN if the argument is NaN.\<close>

fun Math_max_0 :: "jsnum \<Rightarrow> jsnum" where
  "Math_max_0 (Fin s) = Fin (max 0 s)"
| "Math_max_0 PosInf = PosInf"
| "Math_max_0 NegInf = Fin 0"
| "Math_max_0 NaN = NaN"

text \<open>
  \<^verbatim>\<open>Math.round\<close>: the integer nearest to the argument, a tie going up, which is
  \<open>\<lfloor>x + 1/2\<rfloor>\<close>, the \<^const>\<open>round\<close> of HOL.
\<close>

fun Math_round :: "jsnum \<Rightarrow> jsnum" where
  "Math_round (Fin x) = Fin (of_int (round x))"
| "Math_round n = n"

subsection \<open>Promises\<close>

text \<open>
  A settled promise is a value of \<open>jsval + 'a\<close>: \<open>Inl\<close> a rejection with its reason,
  \<open>Inr\<close> a fulfilment. \<^verbatim>\<open>.then(f)\<close> runs \<open>f\<close> on a fulfilment and passes a
  rejection on; \<^verbatim>\<open>.catch(h)\<close> runs \<open>h\<close> on a rejection and passes a fulfilment
  on. A handler that throws rejects the promise it returns, with what it threw. A promise
  that never settles is not part of the model.
\<close>

definition promise_then :: "jsval + 'a \<Rightarrow> ('a \<Rightarrow> jsval + 'b) \<Rightarrow> jsval + 'b" where
  "promise_then p f = (case p of Inl e \<Rightarrow> Inl e | Inr v \<Rightarrow> f v)"

definition promise_catch :: "jsval + 'a \<Rightarrow> (jsval \<Rightarrow> jsval + 'a) \<Rightarrow> jsval + 'a" where
  "promise_catch p h = (case p of Inl e \<Rightarrow> h e | Inr v \<Rightarrow> Inr v)"

subsection \<open>The collaborators\<close>

text \<open>
  What the audit calls and this file of the repository does not define:
  \<^item> \<open>speedline\<close>, the external library: from the trace to the promise of its results,
    fulfilled with any value or rejected with any reason;
  \<^item> \<open>getLogNormalDistribution\<close> of lib/traces/tracing-processor: from the median and
    the point of diminishing returns to the distribution, an object whose one method
    \<^verbatim>\<open>computeComplementaryPercentile\<close> is the function it returns here; both calls
    may throw;
  \<^item> \<open>toNumberOther\<close>, the host's conversion of strings, arrays and objects to numbers.
\<close>

type_synonym distribution = "jsval \<Rightarrow> jsval + jsnum"

record host =
  speedline :: "jsval \<Rightarrow> jsval + jsval"
  getLogNormalDistribution :: "real \<Rightarrow> real \<Rightarrow> jsval + distribution"
  toNumberOther :: "jsval \<Rightarrow> jsnum"

subsection \<open>The audit\<close>

definition FAILURE_MESSAGE :: string where
  "FAILURE_MESSAGE = ''Navigation and first paint timings not found.''"

definition SCORING_POINT_OF_DIMINISHING_RETURNS :: real where
  "SCORING_POINT_OF_DIMINISHING_RETURNS = 1250"

definition SCORING_MEDIAN :: real where
  "SCORING_MEDIAN = 5500"

definition category :: string where
  "category = ''Performance''"

definition name :: string where
  "name = ''speed-index-metric''"

definition description :: string where
  "description = ''Speed Index''"

definition optimalValue :: string where
  "optimalValue = ''1,000''"

definition requiredArtifacts :: "string list" where
  "requiredArtifacts = [''traceContents'']"

record artifacts =
  traceContents :: jsval

text \<open>
  The object the first three handlers pass on: \<^verbatim>\<open>{score, rawValue}\<close> or
  \<^verbatim>\<open>{score, debugString}\<close>. A field the literal does not set reads as
  \<^verbatim>\<open>undefined\<close>: \<open>None\<close> for the raw value, which is a number when it is set,
  and \<open>Undefined\<close> for the debug string, which is whatever \<^verbatim>\<open>err.message\<close> is.
\<close>

record result =
  score :: jsnum
  rawValue :: "jsnum option"
  debugString :: jsval

record audit_result =
  ar_score :: jsnum
  ar_rawValue :: "jsnum option"
  ar_debugString :: jsval
  ar_optimalValue :: string
  ar_name :: string
  ar_category :: string
  ar_description :: string

text \<open>
  Modelled from the spec: \<^verbatim>\<open>generateAuditResult\<close> of the base class (../audit) is
  not under src/. By section 6 of the spec the reporting layer receives an object with
  the fields score, rawValue and debugString and the static metadata; the score is the
  \<^verbatim>\<open>value\<close> the audit passes.
\<close>

definition generateAuditResult ::
  "jsnum \<Rightarrow> jsnum option \<Rightarrow> jsval \<Rightarrow> string \<Rightarrow> jsval + audit_result" where
  "generateAuditResult value raw debug optimal =
     Inr \<lparr>ar_score = value, ar_rawValue = raw, ar_debugString = debug,
          ar_optimalValue = optimal, ar_name = name, ar_category = category,
          ar_description = description\<rparr>"

text \<open>The first handler: the check of the trace, then speedline.\<close>

definition retrieve :: "host \<Rightarrow> jsval \<Rightarrow> jsval + jsval" where
  "retrieve h trace =
     (if \<not> truthy trace \<or> \<not> isArray trace then Inl (new_Error FAILURE_MESSAGE)
      else speedline h trace)"

text \<open>
  The second handler. The distribution is built first; the argument
  \<^verbatim>\<open>results.speedIndex\<close> is read before the method is called, and read again for
  the raw value.
\<close>

definition scoring :: "host \<Rightarrow> jsval \<Rightarrow> jsval + result" where
  "scoring h results =
     (case getLogNormalDistribution h SCORING_MEDIAN SCORING_POINT_OF_DIMINISHING_RETURNS of
        Inl e \<Rightarrow> Inl e
      | Inr distribution \<Rightarrow>
          (case getProp results ''speedIndex'' of
             Inl e \<Rightarrow> Inl e
           | Inr speedIndex \<Rightarrow>
               (case distribution speedIndex of
                  Inl e \<Rightarrow> Inl e
                | Inr p \<Rightarrow>
                    Inr \<lparr>score = Math_round (Math_max_0 (Math_min_100 (times100 p))),
                         rawValue = Some (Math_round (ToNumber (toNumberOther h) speedIndex)),
                         debugString = Undefined\<rparr>)))"

text \<open>
  The handler of \<^verbatim>\<open>.catch\<close>. It reads \<^verbatim>\<open>err.message\<close> of whatever was
  thrown: the read itself throws when the reason is \<^verbatim>\<open>undefined\<close> or
  \<^verbatim>\<open>null\<close>, and gives \<^verbatim>\<open>undefined\<close> for a reason without a message.
\<close>

definition recover :: "jsval \<Rightarrow> jsval + result" where
  "recover err =
     (case getProp err ''message'' of
        Inl e \<Rightarrow> Inl e
      | Inr m \<Rightarrow> Inr \<lparr>score = Fin (- 1), rawValue = None, debugString = m\<rparr>)"

text \<open>
  The last handler. \<^verbatim>\<open>this\<close> is the class, the audit being called as its static
  method, so that \<^verbatim>\<open>this.optimalValue\<close> is the getter above.
\<close>

definition report :: "result \<Rightarrow> jsval + audit_result" where
  "report r = generateAuditResult (score r) (rawValue r) (debugString r) optimalValue"

text \<open>
  The two handlers before \<^verbatim>\<open>.catch\<close>: the part of the chain that may fail. The
  trace is a plain value, so that \<^verbatim>\<open>Promise.resolve\<close> fulfils with it.
\<close>

definition measured :: "host \<Rightarrow> artifacts \<Rightarrow> jsval + result" where
  "measured h a = promise_then (promise_then (Inr (traceContents a)) (retrieve h)) (scoring h)"

definition audit :: "host \<Rightarrow> artifacts \<Rightarrow> jsval + audit_result" where
  "audit h a = promise_then (promise_catch (measured h a) recover) report"

subsection \<open>The result as the spec describes it\<close>

text \<open>An integer of [0,100]: the score of a success in section 3 of the spec.\<close>

fun score_in_range :: "jsnum \<Rightarrow> bool" where
  "score_in_range (Fin s) = (s = of_int \<lfloor>s\<rfloor> \<and> 0 \<le> s \<and> s \<le> 100)"
| "score_in_range n = False"

text \<open>A non-negative integer: the raw value of section 3 of the spec.\<close>

fun nonneg_integer :: "jsnum \<Rightarrow> bool" where
  "nonneg_integer (Fin x) = (x = of_int \<lfloor>x\<rfloor> \<and> 0 \<le> x)"
| "nonneg_integer n = False"

text \<open>A string that is not empty: the debug message of a failure in section 3.\<close>

fun nonempty_string :: "jsval \<Rightarrow> bool" where
  "nonempty_string (Str m) = (m \<noteq> [])"
| "nonempty_string v = False"

text \<open>
  The invariant of section 3 of the spec, in its words: the score is an integer of [0,100],
  or it is -1 and comes with a debug message that is not empty; the raw value, when
  present, is a non-negative integer.
\<close>

definition spec_result_invariant :: "audit_result \<Rightarrow> bool" where
  "spec_result_invariant r =
     ((score_in_range (ar_score r) \<or>
       (ar_score r = Fin (- 1) \<and> nonempty_string (ar_debugString r))) \<and>
      (case ar_rawValue r of None \<Rightarrow> True | Some raw \<Rightarrow> nonneg_integer raw))"



subsection \<open>Collaborators to run the audit on\<close>

text \<open>
  A host whose speedline settles as \<open>outcome\<close> on every trace and whose distribution
  answers \<open>p\<close> for every measurement.
\<close>

definition example_host :: "jsval + jsval \<Rightarrow> jsnum \<Rightarrow> host" where
  "example_host outcome p =
     \<lparr>speedline = (\<lambda>trace. outcome),
      getLogNormalDistribution = (\<lambda>median falloff. Inr (\<lambda>x. Inr p)),
      toNumberOther = (\<lambda>v. NaN)\<rparr>"


subsection \<open>The distribution scorer of the spec\<close>

text \<open>
  Modelled from the spec: the standard normal distribution function and its inverse, which
  section 4.1 of the spec builds the log-normal model on; the implementation the source
  calls (lib/traces/tracing-processor) is not under src/. \<open>gauss_integral x\<close> is the
  integral of \<open>exp (- t\<^sup>2)\<close> from 0 to x, as its power series, and \<open>gauss_total\<close> its
  limit at infinity. The error function is their quotient, the distribution function is
  \<open>(1 + erf (z / sqrt 2)) / 2\<close>, and the quantile is its inverse.
\<close>

definition gauss_coeff :: "nat \<Rightarrow> real" where
  "gauss_coeff k =
     (if even k then 0 else (- 1) ^ ((k - 1) div 2) / (fact ((k - 1) div 2) * real k))"

definition gauss_integral :: "real \<Rightarrow> real" where
  "gauss_integral x = (\<Sum>k. gauss_coeff k * x ^ k)"

definition gauss_total :: real where
  "gauss_total = (SUP x. gauss_integral x)"

definition erf :: "real \<Rightarrow> real" where
  "erf x = gauss_integral x / gauss_total"

definition std_normal_cdf :: "real \<Rightarrow> real" where
  "std_normal_cdf z = (1 + erf (z / sqrt 2)) / 2"

definition std_normal_quantile :: "real \<Rightarrow> real" where
  "std_normal_quantile q = (THE z. std_normal_cdf z = q)"

record lognormal_model =
  location :: real
  shape :: real

text \<open>
  Modelled from the spec: \<^verbatim>\<open>getLogNormalDistribution\<close> of
  lib/traces/tracing-processor is not under src/. Section 4.1 of the spec derives the
  location \<open>\<mu>\<close> and the shape \<open>\<sigma>\<close> from the two anchors: the median is
  \<open>exp \<mu>\<close>, and the cumulative probability at the point of diminishing returns is a
  fixed reference fraction, reproduced through the inverse of the standard normal
  distribution function. The spec does not give the fraction: it is the parameter \<open>q\<close>.
\<close>

definition buildLogNormalModel :: "real \<Rightarrow> real \<Rightarrow> real \<Rightarrow> lognormal_model" where
  "buildLogNormalModel q median pointOfDiminishingReturns =
     \<lparr>location = ln median,
      shape = (ln pointOfDiminishingReturns - ln median) / std_normal_quantile q\<rparr>"

text \<open>
  Modelled from the spec: the cumulative distribution function of the log-normal
  distribution, which is 0 up to 0, and section 4.1's
  \<^verbatim>\<open>complementaryPercentile(model, x)\<close>, \<open>1 - CDF(x)\<close>.
\<close>

definition lognormal_cdf :: "lognormal_model \<Rightarrow> real \<Rightarrow> real" where
  "lognormal_cdf m x = (if x \<le> 0 then 0 else std_normal_cdf ((ln x - location m) / shape m))"

definition complementaryPercentile :: "lognormal_model \<Rightarrow> real \<Rightarrow> real" where
  "complementaryPercentile m x = 1 - lognormal_cdf m x"

text \<open>
  Modelled from the spec: the method \<^verbatim>\<open>computeComplementaryPercentile\<close> of the
  distribution, on the values of JavaScript. The spec defines it on the measurements, the
  reals from 0 on, and leaves every other argument open; there the answer is NaN here.
\<close>

definition spec_distribution :: "lognormal_model \<Rightarrow> distribution" where
  "spec_distribution m v =
     (case v of
        Num (Fin x) \<Rightarrow> Inr (if 0 \<le> x then Fin (complementaryPercentile m x) else NaN)
      | _ \<Rightarrow> Inr NaN)"

text \<open>
  Modelled from the spec: \<^verbatim>\<open>getLogNormalDistribution(median, falloff)\<close> as the audit
  calls it, returning the distribution of the model built from the two anchors.
\<close>

definition spec_getLogNormalDistribution :: "real \<Rightarrow> real \<Rightarrow> real \<Rightarrow> jsval + distribution" where
  "spec_getLogNormalDistribution q median pointOfDiminishingReturns =
     Inr (spec_distribution (buildLogNormalModel q median pointOfDiminishingReturns))"

text \<open>
  A host whose speedline settles as \<open>outcome\<close> on every trace and whose distribution is
  the one of the spec, for the reference fraction \<open>q\<close>.
\<close>

definition spec_host :: "real \<Rightarrow> jsval + jsval \<Rightarrow> host" where
  "spec_host q outcome =
     \<lparr>speedline = (\<lambda>trace. outcome),
      getLogNormalDistribution = spec_getLogNormalDistribution q,
      toNumberOther = (\<lambda>v. NaN)\<rparr>"

section \<open>Properties\<close>

subsection \<open>What the chain computes\<close>

lemma isArray_truthy: "isArray t \<Longrightarrow> truthy t"
  by (cases t) simp_all

lemma retrieve_no_trace:
  "\<not> truthy t \<or> \<not> isArray t \<Longrightarrow> retrieve h t = Inl (new_Error FAILURE_MESSAGE)"
  by (auto simp add: retrieve_def)

lemma retrieve_array: "isArray t \<Longrightarrow> retrieve h t = speedline h t"
  by (simp add: retrieve_def isArray_truthy)

lemma measured_unfold: "measured h a = promise_then (retrieve h (traceContents a)) (scoring h)"
  by (simp add: measured_def promise_then_def)

lemma measured_retrieve_fails:
  "retrieve h (traceContents a) = Inl e \<Longrightarrow> measured h a = Inl e"
  by (simp add: measured_unfold promise_then_def)

lemma measured_scoring:
  "retrieve h (traceContents a) = Inr results \<Longrightarrow> measured h a = scoring h results"
  by (simp add: measured_unfold promise_then_def)

lemma measured_fails_where:
  "measured h a = Inl e \<longleftrightarrow>
   retrieve h (traceContents a) = Inl e \<or>
   (\<exists>results. retrieve h (traceContents a) = Inr results \<and> scoring h results = Inl e)"
  by (cases "retrieve h (traceContents a)") (simp_all add: measured_unfold promise_then_def)

lemma getProp_message_new_Error: "getProp (new_Error m) ''message'' = Inr (Str m)"
  by (simp add: new_Error_def)

lemma getProp_defined:
  "e \<noteq> Undefined \<Longrightarrow> e \<noteq> Null \<Longrightarrow> \<exists>m. getProp e n = Inr m"
  by (cases e) simp_all

lemma audit_of_failure:
  "measured h a = Inl e \<Longrightarrow> getProp e ''message'' = Inr m \<Longrightarrow>
   audit h a = generateAuditResult (Fin (- 1)) None m optimalValue"
  by (simp add: audit_def promise_then_def promise_catch_def recover_def report_def)

lemma audit_of_unreadable_reason:
  "measured h a = Inl e \<Longrightarrow> getProp e ''message'' = Inl e' \<Longrightarrow> audit h a = Inl e'"
  by (simp add: audit_def promise_then_def promise_catch_def recover_def)

lemma audit_of_success:
  "measured h a = Inr r \<Longrightarrow>
   audit h a = generateAuditResult (score r) (rawValue r) (debugString r) optimalValue"
  by (simp add: audit_def promise_then_def promise_catch_def report_def)

lemma audit_after_failure:
  assumes "measured h a = Inl e" and "audit h a = Inr r"
  shows "ar_score r = Fin (- 1) \<and> ar_rawValue r = None \<and>
    getProp e ''message'' = Inr (ar_debugString r)"
proof (cases "getProp e ''message''")
  case (Inl e')
  then show ?thesis
    using assms by (simp add: audit_of_unreadable_reason)
next
  case (Inr m)
  then show ?thesis
    using assms by (auto simp add: audit_of_failure generateAuditResult_def)
qed

lemma scoring_scored:
  assumes "getLogNormalDistribution h SCORING_MEDIAN SCORING_POINT_OF_DIMINISHING_RETURNS = Inr d"
    and "getProp results ''speedIndex'' = Inr v"
    and "d v = Inr p"
  shows "scoring h results =
    Inr \<lparr>score = Math_round (Math_max_0 (Math_min_100 (times100 p))),
         rawValue = Some (Math_round (ToNumber (toNumberOther h) v)),
         debugString = Undefined\<rparr>"
  using assms by (simp add: scoring_def)

lemma audit_scored:
  assumes "isArray (traceContents a)"
    and "speedline h (traceContents a) = Inr results"
    and "getLogNormalDistribution h SCORING_MEDIAN SCORING_POINT_OF_DIMINISHING_RETURNS = Inr d"
    and "getProp results ''speedIndex'' = Inr v"
    and "d v = Inr p"
  shows "audit h a =
    generateAuditResult (Math_round (Math_max_0 (Math_min_100 (times100 p))))
      (Some (Math_round (ToNumber (toNumberOther h) v))) Undefined optimalValue"
proof -
  have "retrieve h (traceContents a) = Inr results"
    using assms(1,2) by (simp add: retrieve_array)
  then have "measured h a = scoring h results"
    by (rule measured_scoring)
  then show ?thesis
    using scoring_scored [OF assms(3,4,5)] by (simp add: audit_of_success)
qed

text \<open>
  Nothing on that path looks at the measurement: whatever \<^verbatim>\<open>results.speedIndex\<close>
  is, a number or not, once the distribution has answered the result is the one of a
  success, without a debug string.
\<close>

lemma scored_has_no_debugString:
  assumes "isArray (traceContents a)"
    and "speedline h (traceContents a) = Inr results"
    and "getLogNormalDistribution h SCORING_MEDIAN SCORING_POINT_OF_DIMINISHING_RETURNS = Inr d"
    and "getProp results ''speedIndex'' = Inr v"
    and "d v = Inr p"
  shows "\<exists>r. audit h a = Inr r \<and> ar_debugString r = Undefined"
  using audit_scored [OF assms] by (simp add: generateAuditResult_def)

subsection \<open>Rounding to the nearest double\<close>

lemma round_half_even_of_int: "round_half_even (of_int n) = n"
  by (simp add: round_half_even_def)

lemma round_half_even_cases:
  "round_half_even m = \<lfloor>m\<rfloor> \<or> round_half_even m = \<lfloor>m\<rfloor> + 1"
  by (simp add: round_half_even_def Let_def)

lemma round_half_even_mono:
  assumes "m1 \<le> m2"
  shows "round_half_even m1 \<le> round_half_even m2"
proof (cases "\<lfloor>m1\<rfloor> = \<lfloor>m2\<rfloor>")
  case True
  then show ?thesis
    using assms by (auto simp add: round_half_even_def Let_def)
next
  case False
  moreover have "\<lfloor>m1\<rfloor> \<le> \<lfloor>m2\<rfloor>" using assms by (rule floor_mono)
  ultimately have "\<lfloor>m1\<rfloor> + 1 \<le> \<lfloor>m2\<rfloor>" by simp
  then show ?thesis
    using round_half_even_cases [of m1] round_half_even_cases [of m2] by auto
qed

lemma ulp_pos: "0 < ulp x"
  by (simp add: ulp_def)

lemma nearest_exact:
  assumes "x / ulp x = of_int n"
  shows "nearest x = x"
proof -
  have "of_int n * ulp x = x"
    using assms ulp_pos [of x] by (simp add: field_simps)
  then show ?thesis
    by (simp add: nearest_def assms round_half_even_of_int)
qed

lemma nearest_nonneg:
  assumes "0 \<le> x"
  shows "0 \<le> nearest x"
proof -
  have "0 \<le> x / ulp x" using assms ulp_pos [of x] by simp
  then have "round_half_even 0 \<le> round_half_even (x / ulp x)"
    by (rule round_half_even_mono)
  then have "0 \<le> round_half_even (x / ulp x)"
    using round_half_even_of_int [of 0] by simp
  then show ?thesis
    using ulp_pos [of x] by (simp add: nearest_def)
qed

lemma binade_mono:
  assumes "0 < x" "x \<le> y"
  shows "binade x \<le> binade y"
proof -
  have "log 2 x \<le> log 2 y" using assms by simp
  then have "\<lfloor>log 2 x\<rfloor> \<le> \<lfloor>log 2 y\<rfloor>" by (rule floor_mono)
  then show ?thesis using assms by (simp add: binade_def)
qed

lemma below_next_binade:
  assumes "0 < x"
  shows "x < 2 powr (of_int (binade x) + 1)"
proof -
  have "log 2 x < of_int \<lfloor>log 2 x\<rfloor> + 1" by linarith
  also have "\<dots> \<le> of_int (binade x) + 1" using assms by (simp add: binade_def)
  finally have "log 2 x < of_int (binade x) + 1" .
  then show ?thesis using assms by (simp add: log_less_iff)
qed

lemma above_binade:
  assumes "0 < x" "- 1022 < binade x"
  shows "2 powr of_int (binade x) \<le> x"
proof -
  have "binade x = \<lfloor>log 2 x\<rfloor>" using assms by (simp add: binade_def max_def split: if_splits)
  then have "of_int (binade x) \<le> log 2 x" by simp
  then show ?thesis using assms(1) by (simp add: le_log_iff)
qed

lemma nearest_le_next_binade:
  assumes "0 < x"
  shows "nearest x \<le> 2 powr (of_int (binade x) + 1)"
proof -
  have "x / ulp x < 2 powr (of_int (binade x) + 1) / ulp x"
    using below_next_binade [OF assms] ulp_pos [of x] by (simp add: divide_strict_right_mono)
  also have "2 powr (of_int (binade x) + 1) / ulp x = 2 powr 53"
    by (simp add: ulp_def powr_diff [symmetric])
  also have "\<dots> = of_int (2 ^ 53)" by simp
  finally have "x / ulp x \<le> of_int (2 ^ 53)" by simp
  then have "round_half_even (x / ulp x) \<le> round_half_even (of_int (2 ^ 53))"
    by (rule round_half_even_mono)
  then have "round_half_even (x / ulp x) \<le> 2 ^ 53"
    by (simp only: round_half_even_of_int)
  then have "of_int (round_half_even (x / ulp x)) \<le> (2 ^ 53 :: real)"
    by (metis of_int_le_iff of_int_numeral of_int_power)
  then have "of_int (round_half_even (x / ulp x)) * ulp x \<le> 2 ^ 53 * ulp x"
    using ulp_pos [of x] by (simp add: mult_right_mono)
  also have "2 ^ 53 * ulp x = 2 powr 53 * ulp x" by simp
  also have "\<dots> = 2 powr (53 + (of_int (binade x) - 52))"
    unfolding ulp_def by (rule powr_add [symmetric])
  also have "53 + (of_int (binade x) - 52) = (of_int (binade x) + 1 :: real)" by simp
  finally show ?thesis using assms by (simp add: nearest_def)
qed

lemma nearest_ge_binade:
  assumes "0 < x" "- 1022 < binade x"
  shows "2 powr of_int (binade x) \<le> nearest x"
proof -
  have "2 powr of_int (binade x) / ulp x \<le> x / ulp x"
    using above_binade [OF assms] ulp_pos [of x] by (simp add: divide_right_mono)
  moreover have "2 powr of_int (binade x) / ulp x = 2 powr 52"
    by (simp add: ulp_def powr_diff [symmetric])
  moreover have "(2 powr 52 :: real) = of_int (2 ^ 52)" by simp
  ultimately have "of_int (2 ^ 52) \<le> x / ulp x" by simp
  then have "round_half_even (of_int (2 ^ 52)) \<le> round_half_even (x / ulp x)"
    by (rule round_half_even_mono)
  then have "2 ^ 52 \<le> round_half_even (x / ulp x)"
    by (simp only: round_half_even_of_int)
  then have "(2 ^ 52 :: real) \<le> of_int (round_half_even (x / ulp x))"
    by (metis of_int_le_iff of_int_numeral of_int_power)
  then have "2 ^ 52 * ulp x \<le> of_int (round_half_even (x / ulp x)) * ulp x"
    using ulp_pos [of x] by (simp add: mult_right_mono)
  moreover have "2 ^ 52 * ulp x = 2 powr 52 * ulp x" by simp
  moreover have "2 powr 52 * ulp x = 2 powr (52 + (of_int (binade x) - 52))"
    unfolding ulp_def by (rule powr_add [symmetric])
  moreover have "52 + (of_int (binade x) - 52) = (of_int (binade x) :: real)" by simp
  ultimately show ?thesis using assms by (simp add: nearest_def)
qed

lemma nearest_mono:
  assumes "0 \<le> x" "x \<le> y"
  shows "nearest x \<le> nearest y"
proof (cases "x = 0")
  case True
  then show ?thesis using nearest_nonneg [of y] assms by (simp add: nearest_def)
next
  case False
  then have x: "0 < x" and y: "0 < y" using assms by simp_all
  show ?thesis
  proof (cases "binade x = binade y")
    case True
    then have u: "ulp x = ulp y" by (simp add: ulp_def)
    have "x / ulp y \<le> y / ulp y"
      using assms(2) ulp_pos [of y] by (simp add: divide_right_mono)
    then have "round_half_even (x / ulp y) \<le> round_half_even (y / ulp y)"
      by (rule round_half_even_mono)
    then show ?thesis
      using x y u ulp_pos [of y] by (simp add: nearest_def mult_right_mono)
  next
    case False
    then have less: "binade x < binade y"
      using binade_mono [OF x assms(2)] by simp
    moreover have "- 1022 \<le> binade x" by (simp add: binade_def)
    ultimately have "- 1022 < binade y" by simp
    have "nearest x \<le> 2 powr (of_int (binade x) + 1)"
      using x by (rule nearest_le_next_binade)
    also have "\<dots> \<le> 2 powr of_int (binade y)"
      using less by (intro powr_mono) simp_all
    also have "\<dots> \<le> nearest y"
      using y \<open>- 1022 < binade y\<close> by (rule nearest_ge_binade)
    finally show ?thesis .
  qed
qed

lemma binade_eq:
  assumes "2 powr of_int k \<le> \<bar>x\<bar>" "\<bar>x\<bar> < 2 powr (of_int k + 1)" "- 1022 \<le> k"
  shows "binade x = k"
proof -
  have "0 < \<bar>x\<bar>" using assms(1) by (smt (verit) powr_gt_zero)
  then have "\<lfloor>log 2 \<bar>x\<bar>\<rfloor> = k"
    using assms(1,2) by (simp add: floor_log_eq_powr_iff)
  then show ?thesis using assms(3) by (simp add: binade_def)
qed

lemma nearest_100: "nearest 100 = 100"
proof -
  have b: "binade 100 = 6"
    by (rule binade_eq) (simp_all add: powr_add)
  have "100 / ulp 100 = of_int (100 * 2 ^ 46)"
    unfolding ulp_def b by (simp add: powr_minus field_simps)
  then show ?thesis by (rule nearest_exact)
qed


lemma nearest_double_100: "nearest_double 100 = Fin 100"
  by (simp add: nearest_double_def nearest_100)


lemma times100_NaN: "times100 p = NaN \<longleftrightarrow> p = NaN"
  by (cases p) (simp_all add: nearest_double_def)

lemma nearest_double_unit_interval:
  assumes "0 \<le> p" "p \<le> 1"
  shows "nearest_double (100 * p) = Fin (nearest (100 * p))"
proof -
  have "nearest (100 * p) \<le> nearest 100"
    using assms by (intro nearest_mono) simp_all
  then have "nearest (100 * p) \<le> 100" by (simp add: nearest_100)
  moreover have "0 \<le> nearest (100 * p)"
    using assms(1) by (intro nearest_nonneg) simp
  moreover have "(100 :: real) < 2 powr 1024" by simp
  ultimately show ?thesis by (simp add: nearest_double_def)
qed

subsection \<open>Clamping and rounding\<close>

lemma round_clamped: "0 \<le> round (max 0 (min 100 s :: real)) \<and> round (max 0 (min 100 s)) \<le> 100"
proof
  have "round (0 :: real) \<le> round (max 0 (min 100 s))"
    by (rule round_mono) simp
  then show "0 \<le> round (max 0 (min 100 s))" by simp
  have "round (max 0 (min 100 s)) \<le> round (100 :: real)"
    by (rule round_mono) simp
  then show "round (max 0 (min 100 s)) \<le> 100" by simp
qed




lemma clamped_integer:
  assumes "n \<noteq> NaN"
  shows "\<exists>k. Math_round (Math_max_0 (Math_min_100 n)) = Fin (of_int k) \<and> 0 \<le> k \<and> k \<le> 100"
proof (cases n)
  case (Fin s)
  then show ?thesis using round_clamped [of s] by auto
qed (use assms in simp_all)

lemma clamped_score_in_range:
  assumes "n \<noteq> NaN"
  shows "score_in_range (Math_round (Math_max_0 (Math_min_100 n)))"
  using clamped_integer [OF assms] by auto

lemma clamped_score_not_failure:
  "Math_round (Math_max_0 (Math_min_100 n)) \<noteq> Fin (- 1)"
proof (cases "n = NaN")
  case True
  then show ?thesis by simp
next
  case False
  then show ?thesis using clamped_integer [of n] by auto
qed

lemma scoring_score_not_failure: "scoring h results = Inr r \<Longrightarrow> score r \<noteq> Fin (- 1)"
  by (auto simp add: scoring_def clamped_score_not_failure split: sum.splits)

lemma scoring_has_rawValue: "scoring h results = Inr r \<Longrightarrow> rawValue r \<noteq> None"
  by (auto simp add: scoring_def split: sum.splits)

lemma measured_success_shape:
  assumes "measured h a = Inr r"
  shows "score r \<noteq> Fin (- 1) \<and> rawValue r \<noteq> None"
proof (cases "retrieve h (traceContents a)")
  case (Inl e)
  then show ?thesis using assms by (simp add: measured_retrieve_fails)
next
  case (Inr results)
  then have "scoring h results = Inr r"
    using assms by (simp add: measured_scoring)
  then show ?thesis
    by (simp add: scoring_score_not_failure scoring_has_rawValue)
qed

subsection \<open>The claims about the audit\<close>

text \<open>
  C8: the metadata the audit exposes are the constants category = "Performance",
  name = "speed-index-metric", description = "Speed Index" and optimalValue = "1,000";
  they depend on no argument, and the last handler passes the optimal value on with
  every result.
\<close>

theorem C8_metadata:
  "category = ''Performance'' \<and> name = ''speed-index-metric'' \<and>
   description = ''Speed Index'' \<and> optimalValue = ''1,000'' \<and>
   (\<forall>res. \<exists>r. report res = Inr r \<and> ar_optimalValue r = ''1,000'')"
  by (simp add: report_def generateAuditResult_def category_def name_def description_def
      optimalValue_def)

text \<open>
  C1, as the spec states it: the audit never propagates an exception. The handler of
  \<^verbatim>\<open>.catch\<close> reads \<^verbatim>\<open>err.message\<close>, and nothing follows it that catches:
  when speedline rejects with the reason \<^verbatim>\<open>undefined\<close>, that read raises a
  TypeError and the audit rejects with it.
\<close>

theorem C1_undefined_reason_counterexample:
  "audit (example_host (Inl Undefined) (Fin (1 / 2))) \<lparr>traceContents = Arr []\<rparr> =
     Inl (new_TypeError ''Cannot read property 'message' of undefined'')"
  by (simp add: audit_def measured_def promise_then_def promise_catch_def retrieve_def
      recover_def example_host_def quoted_def)

text \<open>
  C1, amended: a failure raised while the measurement is retrieved (the check of the
  trace, speedline) or while it is scored (the distribution, the read of speedIndex) is
  recovered whenever its reason is a value other than \<^verbatim>\<open>undefined\<close> and
  \<^verbatim>\<open>null\<close>: the audit fulfils with a result of score -1 whose debug string is the
  property \<^verbatim>\<open>message\<close> of the reason, the message itself when the reason is an
  Error. When nothing fails the audit fulfils as well.
\<close>

theorem C1_recovers_reasons:
  "(\<forall>e. (retrieve h (traceContents a) = Inl e \<or>
          (\<exists>results. retrieve h (traceContents a) = Inr results \<and>
             scoring h results = Inl e)) \<and>
         e \<noteq> Undefined \<and> e \<noteq> Null \<longrightarrow>
         (\<exists>r. audit h a = Inr r \<and> ar_score r = Fin (- 1) \<and>
              getProp e ''message'' = Inr (ar_debugString r) \<and>
              (\<forall>m. e = new_Error m \<longrightarrow> ar_debugString r = Str m))) \<and>
   (\<forall>res. measured h a = Inr res \<longrightarrow> (\<exists>r. audit h a = Inr r))"
proof (intro conjI allI impI)
  fix e
  assume e: "(retrieve h (traceContents a) = Inl e \<or>
          (\<exists>results. retrieve h (traceContents a) = Inr results \<and>
             scoring h results = Inl e)) \<and>
         e \<noteq> Undefined \<and> e \<noteq> Null"
  then have failed: "measured h a = Inl e"
    by (simp add: measured_fails_where)
  obtain m where m: "getProp e ''message'' = Inr m"
    using e getProp_defined [of e "''message''"] by blast
  have "audit h a = generateAuditResult (Fin (- 1)) None m optimalValue"
    using failed m by (rule audit_of_failure)
  then show "\<exists>r. audit h a = Inr r \<and> ar_score r = Fin (- 1) \<and>
      getProp e ''message'' = Inr (ar_debugString r) \<and>
      (\<forall>m. e = new_Error m \<longrightarrow> ar_debugString r = Str m)"
    using m by (auto simp add: generateAuditResult_def getProp_message_new_Error)
next
  fix res
  assume "measured h a = Inr res"
  then show "\<exists>r. audit h a = Inr r"
    by (simp add: audit_of_success generateAuditResult_def)
qed

theorem C1_recovers_reasons_witness:
  "(\<exists>r. audit (example_host (Inl (new_Error ''trace has no screenshots'')) (Fin (1 / 2)))
          \<lparr>traceContents = Arr []\<rparr> = Inr r \<and>
        ar_score r = Fin (- 1) \<and> ar_debugString r = Str ''trace has no screenshots'') \<and>
   (\<exists>r. audit (example_host (Inr (Obj [(''speedIndex'', Num (Fin 40))])) (Fin (1 / 2)))
          \<lparr>traceContents = Arr []\<rparr> = Inr r)"
proof -
  let ?ko = "example_host (Inl (new_Error ''trace has no screenshots'')) (Fin (1 / 2))"
  let ?ok = "example_host (Inr (Obj [(''speedIndex'', Num (Fin 40))])) (Fin (1 / 2))"
  have "retrieve ?ko (Arr []) = Inl (new_Error ''trace has no screenshots'')"
    by (simp add: retrieve_def example_host_def)
  moreover have "new_Error ''trace has no screenshots'' \<noteq> Undefined"
    and "new_Error ''trace has no screenshots'' \<noteq> Null"
    by (simp_all add: new_Error_def)
  ultimately have 1: "\<exists>r. audit ?ko \<lparr>traceContents = Arr []\<rparr> = Inr r \<and>
      ar_score r = Fin (- 1) \<and> ar_debugString r = Str ''trace has no screenshots''"
    using C1_recovers_reasons [of ?ko "\<lparr>traceContents = Arr []\<rparr>"] by fastforce
  have "\<exists>res. measured ?ok \<lparr>traceContents = Arr []\<rparr> = Inr res"
    by (simp add: measured_unfold retrieve_def promise_then_def scoring_def example_host_def)
  then have 2: "\<exists>r. audit ?ok \<lparr>traceContents = Arr []\<rparr> = Inr r"
    using C1_recovers_reasons [of ?ok "\<lparr>traceContents = Arr []\<rparr>"] by blast
  from 1 2 show ?thesis by simp
qed

text \<open>
  C10, as the spec states it: whenever the audit recovers from an error, the result has
  score -1 and a debug string. The debug string is \<^verbatim>\<open>err.message\<close> of whatever
  was thrown: when speedline rejects with a string, which has no such property, the
  result has score -1 and \<^verbatim>\<open>undefined\<close> as debug string.
\<close>

theorem C10_reason_without_message_counterexample:
  "audit (example_host (Inl (Str ''oops'')) (Fin (1 / 2))) \<lparr>traceContents = Arr []\<rparr> =
     Inr \<lparr>ar_score = Fin (- 1), ar_rawValue = None, ar_debugString = Undefined,
          ar_optimalValue = ''1,000'', ar_name = ''speed-index-metric'',
          ar_category = ''Performance'', ar_description = ''Speed Index''\<rparr>"
  by (simp add: audit_def measured_def promise_then_def promise_catch_def retrieve_def
      recover_def report_def generateAuditResult_def example_host_def
      optimalValue_def name_def category_def description_def)

text \<open>
  C10, amended: a result that reports a failure carries no measurement. Whenever the
  audit recovers from an error the result has score -1, no raw value, and as debug string
  the property \<^verbatim>\<open>message\<close> of the reason: the message when the reason is an Error,
  \<^verbatim>\<open>undefined\<close> when the reason has none. And whatever the audit returns, a score
  of -1 never comes with a raw value.
\<close>

theorem C10_failure_has_no_rawValue:
  assumes "audit h a = Inr r"
  shows "(\<forall>e. measured h a = Inl e \<longrightarrow>
            ar_score r = Fin (- 1) \<and> ar_rawValue r = None \<and>
            getProp e ''message'' = Inr (ar_debugString r) \<and>
            (\<forall>m. e = new_Error m \<longrightarrow> ar_debugString r = Str m)) \<and>
         (ar_score r = Fin (- 1) \<longrightarrow> ar_rawValue r = None)"
proof (cases "measured h a")
  case (Inl e)
  then show ?thesis
    using audit_after_failure [OF Inl assms]
    by (auto simp add: getProp_message_new_Error)
next
  case (Inr res)
  then show ?thesis
    using measured_success_shape [OF Inr] assms
    by (auto simp add: audit_of_success generateAuditResult_def)
qed

theorem C10_failure_has_no_rawValue_witness:
  "\<exists>r. audit (example_host (Inr Null) (Fin (1 / 2))) \<lparr>traceContents = Arr []\<rparr> = Inr r \<and>
       ar_score r = Fin (- 1) \<and> ar_rawValue r = None \<and>
       ar_debugString r = Str ''Cannot read property 'speedIndex' of null''"
proof -
  let ?h = "example_host (Inr Null) (Fin (1 / 2))"
  let ?e = "new_TypeError ''Cannot read property 'speedIndex' of null''"
  have failed: "measured ?h \<lparr>traceContents = Arr []\<rparr> = Inl ?e"
    by (simp add: measured_unfold retrieve_def promise_then_def scoring_def example_host_def
        quoted_def)
  have "getProp ?e ''message'' = Inr (Str ''Cannot read property 'speedIndex' of null'')"
    by (simp add: new_TypeError_def)
  with failed obtain r where r: "audit ?h \<lparr>traceContents = Arr []\<rparr> = Inr r"
    by (simp add: audit_of_failure generateAuditResult_def)
  have "ar_score r = Fin (- 1) \<and> ar_rawValue r = None \<and>
      getProp ?e ''message'' = Inr (ar_debugString r)"
    using C10_failure_has_no_rawValue [OF r] failed by blast
  then have "ar_score r = Fin (- 1) \<and> ar_rawValue r = None \<and>
      ar_debugString r = Str ''Cannot read property 'speedIndex' of null''"
    by (simp add: new_TypeError_def)
  with r show ?thesis by blast
qed

text \<open>
  C9: the clamp makes the score of a success an integer of [0,100] whatever the
  distribution answers. If the trace is an array, speedline fulfils, the distribution is
  built and its method returns a finite real p, inside [0,1] or not, the audit returns a
  result whose score is an integer between 0 and 100.
\<close>

theorem C9_score_clamped:
  assumes "isArray (traceContents a)"
    and "speedline h (traceContents a) = Inr results"
    and "getLogNormalDistribution h SCORING_MEDIAN SCORING_POINT_OF_DIMINISHING_RETURNS = Inr d"
    and "getProp results ''speedIndex'' = Inr v"
    and "d v = Inr (Fin p)"
  shows "\<exists>r n. audit h a = Inr r \<and> ar_score r = Fin (of_int n) \<and> 0 \<le> n \<and> n \<le> 100"
proof -
  have "times100 (Fin p) \<noteq> NaN"
    by (simp only: times100_NaN) simp
  then obtain k where "Math_round (Math_max_0 (Math_min_100 (times100 (Fin p)))) = Fin (of_int k)"
    and "0 \<le> k" and "k \<le> 100"
    using clamped_integer by blast
  then show ?thesis
    using audit_scored [OF assms] by (auto simp add: generateAuditResult_def)
qed

theorem C9_score_clamped_witness:
  "\<exists>r n. audit (example_host (Inr (Obj [(''speedIndex'', Num (Fin 40))])) (Fin (3 / 2)))
            \<lparr>traceContents = Arr []\<rparr> = Inr r \<and>
         ar_score r = Fin (of_int n) \<and> 0 \<le> n \<and> n \<le> 100"
  using C9_score_clamped
    [of "\<lparr>traceContents = Arr []\<rparr>"
        "example_host (Inr (Obj [(''speedIndex'', Num (Fin 40))])) (Fin (3 / 2))"
        "Obj [(''speedIndex'', Num (Fin 40))]" "\<lambda>x. Inr (Fin (3 / 2))" "Num (Fin 40)" "3 / 2"]
  by (simp add: example_host_def)



text \<open>
  C3, as the spec states it: whenever the source yields an absent, non-numeric or
  malformed value, the debug message is "Navigation and first paint timings not found.".
  The source checks the trace only. When the trace is an array and speedline fulfils with
  \<^verbatim>\<open>undefined\<close>, the read of \<^verbatim>\<open>results.speedIndex\<close> raises a TypeError,
  and the debug string is the message of that TypeError. When speedline fulfils with an
  object that has no \<^verbatim>\<open>speedIndex\<close>, the distribution is asked about
  \<^verbatim>\<open>undefined\<close>; if it answers NaN, as arithmetic on \<^verbatim>\<open>undefined\<close> does,
  the audit returns the result of a success, with NaN as score and as raw value and
  without a debug string.
\<close>

theorem C3_absent_results_counterexample:
  "audit (example_host (Inr Undefined) (Fin (1 / 2))) \<lparr>traceContents = Arr []\<rparr> =
     Inr \<lparr>ar_score = Fin (- 1), ar_rawValue = None,
          ar_debugString = Str ''Cannot read property 'speedIndex' of undefined'',
          ar_optimalValue = ''1,000'', ar_name = ''speed-index-metric'',
          ar_category = ''Performance'', ar_description = ''Speed Index''\<rparr> \<and>
   ''Cannot read property 'speedIndex' of undefined'' \<noteq> FAILURE_MESSAGE \<and>
   audit (example_host (Inr (Obj [])) NaN) \<lparr>traceContents = Arr []\<rparr> =
     Inr \<lparr>ar_score = NaN, ar_rawValue = Some NaN, ar_debugString = Undefined,
          ar_optimalValue = ''1,000'', ar_name = ''speed-index-metric'',
          ar_category = ''Performance'', ar_description = ''Speed Index''\<rparr>"
  by (simp add: audit_def measured_def promise_then_def promise_catch_def retrieve_def
      scoring_def recover_def report_def generateAuditResult_def example_host_def quoted_def
      new_TypeError_def SCORING_MEDIAN_def SCORING_POINT_OF_DIMINISHING_RETURNS_def
      FAILURE_MESSAGE_def optimalValue_def name_def category_def description_def)

text \<open>
  C3, amended: whenever the trace is missing (falsy) or not an array, the audit returns
  the failure result, of score -1 and without a raw value, whose debug string is exactly
  "Navigation and first paint timings not found.".
\<close>

theorem C3_missing_trace:
  assumes "\<not> truthy (traceContents a) \<or> \<not> isArray (traceContents a)"
  shows "audit h a =
     Inr \<lparr>ar_score = Fin (- 1), ar_rawValue = None,
          ar_debugString = Str ''Navigation and first paint timings not found.'',
          ar_optimalValue = ''1,000'', ar_name = ''speed-index-metric'',
          ar_category = ''Performance'', ar_description = ''Speed Index''\<rparr>"
proof -
  have "measured h a = Inl (new_Error FAILURE_MESSAGE)"
    using retrieve_no_trace [OF assms] by (rule measured_retrieve_fails)
  then have "audit h a = generateAuditResult (Fin (- 1)) None (Str FAILURE_MESSAGE) optimalValue"
    using getProp_message_new_Error by (rule audit_of_failure)
  then show ?thesis
    by (simp add: generateAuditResult_def FAILURE_MESSAGE_def
        optimalValue_def name_def category_def description_def)
qed

theorem C3_missing_trace_witness:
  "audit (example_host (Inr (Obj [(''speedIndex'', Num (Fin 40))])) (Fin (1 / 2)))
     \<lparr>traceContents = Undefined\<rparr> =
     Inr \<lparr>ar_score = Fin (- 1), ar_rawValue = None,
          ar_debugString = Str ''Navigation and first paint timings not found.'',
          ar_optimalValue = ''1,000'', ar_name = ''speed-index-metric'',
          ar_category = ''Performance'', ar_description = ''Speed Index''\<rparr> \<and>
   audit (example_host (Inr (Obj [(''speedIndex'', Num (Fin 40))])) (Fin (1 / 2)))
     \<lparr>traceContents = Obj [(''traceEvents'', Arr [])]\<rparr> =
     Inr \<lparr>ar_score = Fin (- 1), ar_rawValue = None,
          ar_debugString = Str ''Navigation and first paint timings not found.'',
          ar_optimalValue = ''1,000'', ar_name = ''speed-index-metric'',
          ar_category = ''Performance'', ar_description = ''Speed Index''\<rparr>"
  using C3_missing_trace
      [of "\<lparr>traceContents = Undefined\<rparr>"
          "example_host (Inr (Obj [(''speedIndex'', Num (Fin 40))])) (Fin (1 / 2))"]
    C3_missing_trace
      [of "\<lparr>traceContents = Obj [(''traceEvents'', Arr [])]\<rparr>"
          "example_host (Inr (Obj [(''speedIndex'', Num (Fin 40))])) (Fin (1 / 2))"]
  by simp

text \<open>
  C2, as the spec states it: the score is an integer of [0,100], or it is -1 and paired
  with a debug message that is not empty. The debug string is the message of the error
  that was caught, whatever it is: when speedline rejects with an error whose message is
  empty, the result has score -1 and an empty debug string. And the score of a success is
  what the clamp and the rounding make of the distribution's answer: when the results
  have no \<^verbatim>\<open>speedIndex\<close> and the distribution answers NaN, the score is NaN.
\<close>

theorem C2_empty_message_counterexample:
  "audit (example_host (Inl (new_Error [])) (Fin (1 / 2))) \<lparr>traceContents = Arr []\<rparr> =
     Inr \<lparr>ar_score = Fin (- 1), ar_rawValue = None, ar_debugString = Str [],
          ar_optimalValue = ''1,000'', ar_name = ''speed-index-metric'',
          ar_category = ''Performance'', ar_description = ''Speed Index''\<rparr> \<and>
   \<not> spec_result_invariant
     \<lparr>ar_score = Fin (- 1), ar_rawValue = None, ar_debugString = Str [],
      ar_optimalValue = ''1,000'', ar_name = ''speed-index-metric'',
      ar_category = ''Performance'', ar_description = ''Speed Index''\<rparr> \<and>
   audit (example_host (Inr (Obj [])) NaN) \<lparr>traceContents = Arr []\<rparr> =
     Inr \<lparr>ar_score = NaN, ar_rawValue = Some NaN, ar_debugString = Undefined,
          ar_optimalValue = ''1,000'', ar_name = ''speed-index-metric'',
          ar_category = ''Performance'', ar_description = ''Speed Index''\<rparr> \<and>
   \<not> score_in_range NaN"
  by (simp add: audit_def measured_def promise_then_def promise_catch_def retrieve_def
      scoring_def recover_def report_def generateAuditResult_def example_host_def
      new_Error_def spec_result_invariant_def SCORING_MEDIAN_def
      SCORING_POINT_OF_DIMINISHING_RETURNS_def optimalValue_def name_def category_def
      description_def)

text \<open>
  C2, amended: every result the audit returns satisfies the following. After a success
  in which the distribution answers a number other than NaN, the score is an integer of
  [0,100] and there is no debug string. After a failure the score is exactly -1 and the
  debug string is the property \<^verbatim>\<open>message\<close> of the reason; the invariant of the
  spec holds whenever that is a string that is not empty, as it is for a trace that is
  missing or not an array. The raw value, when present, is a non-negative integer if the
  measurement is a non-negative real.
\<close>

theorem C2_result_shape:
  assumes "audit h a = Inr r"
  shows "(\<forall>e. measured h a = Inl e \<longrightarrow>
            ar_score r = Fin (- 1) \<and> getProp e ''message'' = Inr (ar_debugString r) \<and>
            (nonempty_string (ar_debugString r) \<longrightarrow> spec_result_invariant r)) \<and>
         (\<not> truthy (traceContents a) \<or> \<not> isArray (traceContents a) \<longrightarrow>
            ar_debugString r = Str FAILURE_MESSAGE \<and> spec_result_invariant r) \<and>
         (\<forall>results d v p. isArray (traceContents a) \<and>
            speedline h (traceContents a) = Inr results \<and>
            getLogNormalDistribution h SCORING_MEDIAN SCORING_POINT_OF_DIMINISHING_RETURNS =
              Inr d \<and>
            getProp results ''speedIndex'' = Inr v \<and> d v = Inr p \<and> p \<noteq> NaN \<longrightarrow>
            score_in_range (ar_score r) \<and> ar_debugString r = Undefined \<and>
            (\<forall>x. v = Num (Fin x) \<and> 0 \<le> x \<longrightarrow> spec_result_invariant r)) \<and>
         (\<forall>results x. retrieve h (traceContents a) = Inr results \<and>
            getProp results ''speedIndex'' = Inr (Num (Fin x)) \<and> 0 \<le> x \<longrightarrow>
            (case ar_rawValue r of None \<Rightarrow> True | Some raw \<Rightarrow> nonneg_integer raw))"
proof -
  have failure: "\<forall>e. measured h a = Inl e \<longrightarrow>
      ar_score r = Fin (- 1) \<and> getProp e ''message'' = Inr (ar_debugString r) \<and>
      (nonempty_string (ar_debugString r) \<longrightarrow> spec_result_invariant r)"
  proof (intro allI impI)
    fix e
    assume "measured h a = Inl e"
    from audit_after_failure [OF this assms]
    show "ar_score r = Fin (- 1) \<and> getProp e ''message'' = Inr (ar_debugString r) \<and>
        (nonempty_string (ar_debugString r) \<longrightarrow> spec_result_invariant r)"
      by (simp add: spec_result_invariant_def)
  qed
  have no_trace: "\<not> truthy (traceContents a) \<or> \<not> isArray (traceContents a) \<longrightarrow>
      ar_debugString r = Str FAILURE_MESSAGE \<and> spec_result_invariant r"
  proof
    assume "\<not> truthy (traceContents a) \<or> \<not> isArray (traceContents a)"
    then have "measured h a = Inl (new_Error FAILURE_MESSAGE)"
      by (intro measured_retrieve_fails retrieve_no_trace)
    from audit_after_failure [OF this assms]
    have "ar_score r = Fin (- 1)" and "ar_rawValue r = None"
      and "ar_debugString r = Str FAILURE_MESSAGE"
      by (auto simp add: getProp_message_new_Error)
    then show "ar_debugString r = Str FAILURE_MESSAGE \<and> spec_result_invariant r"
      by (simp add: spec_result_invariant_def FAILURE_MESSAGE_def)
  qed
  have success: "\<forall>results d v p. isArray (traceContents a) \<and>
      speedline h (traceContents a) = Inr results \<and>
      getLogNormalDistribution h SCORING_MEDIAN SCORING_POINT_OF_DIMINISHING_RETURNS = Inr d \<and>
      getProp results ''speedIndex'' = Inr v \<and> d v = Inr p \<and> p \<noteq> NaN \<longrightarrow>
      score_in_range (ar_score r) \<and> ar_debugString r = Undefined \<and>
      (\<forall>x. v = Num (Fin x) \<and> 0 \<le> x \<longrightarrow> spec_result_invariant r)"
  proof (intro allI impI)
    fix results d v p
    assume path: "isArray (traceContents a) \<and>
        speedline h (traceContents a) = Inr results \<and>
        getLogNormalDistribution h SCORING_MEDIAN SCORING_POINT_OF_DIMINISHING_RETURNS = Inr d \<and>
        getProp results ''speedIndex'' = Inr v \<and> d v = Inr p \<and> p \<noteq> NaN"
    then have "audit h a =
        generateAuditResult (Math_round (Math_max_0 (Math_min_100 (times100 p))))
          (Some (Math_round (ToNumber (toNumberOther h) v))) Undefined optimalValue"
      using audit_scored [of a h results d v p] by simp
    then have r: "ar_score r = Math_round (Math_max_0 (Math_min_100 (times100 p)))"
      "ar_rawValue r = Some (Math_round (ToNumber (toNumberOther h) v))"
      "ar_debugString r = Undefined"
      using assms by (auto simp add: generateAuditResult_def)
    have "times100 p \<noteq> NaN" using path by (simp add: times100_NaN)
    then have range: "score_in_range (ar_score r)"
      unfolding r(1) by (rule clamped_score_in_range)
    have "spec_result_invariant r" if "v = Num (Fin x) \<and> 0 \<le> x" for x
    proof -
      have "round (0 :: real) \<le> round x" using that by (intro round_mono) simp
      then show ?thesis
        using that range r(2) by (simp add: spec_result_invariant_def)
    qed
    then show "score_in_range (ar_score r) \<and> ar_debugString r = Undefined \<and>
        (\<forall>x. v = Num (Fin x) \<and> 0 \<le> x \<longrightarrow> spec_result_invariant r)"
      using range r(3) by blast
  qed
  have raw: "\<forall>results x. retrieve h (traceContents a) = Inr results \<and>
      getProp results ''speedIndex'' = Inr (Num (Fin x)) \<and> 0 \<le> x \<longrightarrow>
      (case ar_rawValue r of None \<Rightarrow> True | Some raw \<Rightarrow> nonneg_integer raw)"
  proof (intro allI impI)
    fix results x
    assume m: "retrieve h (traceContents a) = Inr results \<and>
        getProp results ''speedIndex'' = Inr (Num (Fin x)) \<and> 0 \<le> x"
    show "case ar_rawValue r of None \<Rightarrow> True | Some raw \<Rightarrow> nonneg_integer raw"
    proof (cases "measured h a")
      case (Inl e)
      from audit_after_failure [OF this assms] show ?thesis by simp
    next
      case (Inr res)
      then have "scoring h results = Inr res"
        using m by (simp add: measured_scoring)
      then have "rawValue res = Some (Math_round (Fin x))"
        using m by (auto simp add: scoring_def split: sum.splits)
      moreover have "ar_rawValue r = rawValue res"
        using Inr assms by (auto simp add: audit_of_success generateAuditResult_def)
      moreover have "round (0 :: real) \<le> round x" using m by (intro round_mono) simp
      ultimately show ?thesis by simp
    qed
  qed
  from failure no_trace success raw show ?thesis by (intro conjI)
qed

theorem C2_result_shape_witness:
  "(\<exists>r. audit (example_host (Inr (Obj [(''speedIndex'', Num (Fin (54321 / 10)))])) (Fin (1 / 2)))
          \<lparr>traceContents = Arr []\<rparr> = Inr r \<and>
        score_in_range (ar_score r) \<and> ar_debugString r = Undefined \<and>
        spec_result_invariant r) \<and>
   (\<exists>r. audit (example_host (Inl (new_Error ''trace has no screenshots'')) (Fin (1 / 2)))
          \<lparr>traceContents = Arr []\<rparr> = Inr r \<and>
        ar_score r = Fin (- 1) \<and> ar_debugString r = Str ''trace has no screenshots'' \<and>
        spec_result_invariant r) \<and>
   (\<exists>r. audit (example_host (Inr (Obj [(''speedIndex'', Num (Fin (54321 / 10)))])) (Fin (1 / 2)))
          \<lparr>traceContents = Null\<rparr> = Inr r \<and>
        ar_debugString r = Str FAILURE_MESSAGE \<and> spec_result_invariant r)"
proof -
  let ?res = "Obj [(''speedIndex'', Num (Fin (54321 / 10)))]"
  let ?ok = "example_host (Inr ?res) (Fin (1 / 2))"
  let ?ko = "example_host (Inl (new_Error ''trace has no screenshots'')) (Fin (1 / 2))"
  obtain r1 where r1: "audit ?ok \<lparr>traceContents = Arr []\<rparr> = Inr r1"
    by (simp add: audit_def measured_def promise_then_def promise_catch_def retrieve_def
        scoring_def report_def generateAuditResult_def example_host_def)
  have path: "isArray (traceContents \<lparr>traceContents = Arr []\<rparr>) \<and>
      speedline ?ok (traceContents \<lparr>traceContents = Arr []\<rparr>) = Inr ?res \<and>
      getLogNormalDistribution ?ok SCORING_MEDIAN SCORING_POINT_OF_DIMINISHING_RETURNS =
        Inr (\<lambda>x. Inr (Fin (1 / 2))) \<and>
      getProp ?res ''speedIndex'' = Inr (Num (Fin (54321 / 10))) \<and>
      (\<lambda>x. Inr (Fin (1 / 2))) (Num (Fin (54321 / 10))) = (Inr (Fin (1 / 2)) :: jsval + jsnum) \<and>
      Fin (1 / 2) \<noteq> NaN"
    by (simp add: example_host_def)
  from C2_result_shape [OF r1]
  have "\<forall>results d v p. isArray (traceContents \<lparr>traceContents = Arr []\<rparr>) \<and>
      speedline ?ok (traceContents \<lparr>traceContents = Arr []\<rparr>) = Inr results \<and>
      getLogNormalDistribution ?ok SCORING_MEDIAN SCORING_POINT_OF_DIMINISHING_RETURNS = Inr d \<and>
      getProp results ''speedIndex'' = Inr v \<and> d v = Inr p \<and> p \<noteq> NaN \<longrightarrow>
      score_in_range (ar_score r1) \<and> ar_debugString r1 = Undefined \<and>
      (\<forall>x. v = Num (Fin x) \<and> 0 \<le> x \<longrightarrow> spec_result_invariant r1)"
    by blast
  note step = this [rule_format, OF path]
  have "spec_result_invariant r1"
    using step [THEN conjunct2, THEN conjunct2, rule_format, of "54321 / 10"] by simp
  with step have "score_in_range (ar_score r1) \<and> ar_debugString r1 = Undefined \<and>
      spec_result_invariant r1"
    by blast
  with r1 have 1: "\<exists>r. audit ?ok \<lparr>traceContents = Arr []\<rparr> = Inr r \<and>
        score_in_range (ar_score r) \<and> ar_debugString r = Undefined \<and>
        spec_result_invariant r"
    by blast
  have failed: "measured ?ko \<lparr>traceContents = Arr []\<rparr> =
      Inl (new_Error ''trace has no screenshots'')"
    by (simp add: measured_unfold retrieve_def promise_then_def example_host_def)
  then obtain r2 where r2: "audit ?ko \<lparr>traceContents = Arr []\<rparr> = Inr r2"
    using getProp_message_new_Error [of "''trace has no screenshots''"]
    by (simp add: audit_of_failure generateAuditResult_def)
  have "ar_score r2 = Fin (- 1) \<and>
      getProp (new_Error ''trace has no screenshots'') ''message'' = Inr (ar_debugString r2) \<and>
      (nonempty_string (ar_debugString r2) \<longrightarrow> spec_result_invariant r2)"
    using C2_result_shape [OF r2] failed by blast
  moreover from this have "ar_debugString r2 = Str ''trace has no screenshots''"
    by (auto simp add: getProp_message_new_Error)
  ultimately have "ar_score r2 = Fin (- 1) \<and>
      ar_debugString r2 = Str ''trace has no screenshots'' \<and> spec_result_invariant r2"
    by simp
  with r2 have 2: "\<exists>r. audit ?ko \<lparr>traceContents = Arr []\<rparr> = Inr r \<and>
        ar_score r = Fin (- 1) \<and> ar_debugString r = Str ''trace has no screenshots'' \<and>
        spec_result_invariant r"
    by blast
  obtain r3 where r3: "audit ?ok \<lparr>traceContents = Null\<rparr> = Inr r3"
    by (simp add: audit_def measured_def promise_then_def promise_catch_def retrieve_def
        recover_def report_def generateAuditResult_def new_Error_def)
  have "ar_debugString r3 = Str FAILURE_MESSAGE \<and> spec_result_invariant r3"
    using C2_result_shape [OF r3] by simp
  with r3 have 3: "\<exists>r. audit ?ok \<lparr>traceContents = Null\<rparr> = Inr r \<and>
        ar_debugString r = Str FAILURE_MESSAGE \<and> spec_result_invariant r"
    by blast
  from 1 2 3 show ?thesis by simp
qed

subsection \<open>The standard normal distribution function\<close>

text \<open>
  The series converges everywhere, and its derivative is \<open>exp (- x\<^sup>2)\<close>: it is the
  integral it is named after. It is odd, increasing, and bounded, so that its supremum is
  a positive real it never reaches.
\<close>

lemma gauss_terms_summable: "summable (\<lambda>k. gauss_coeff k * x ^ k)"
proof -
  let ?g = "\<lambda>n. (- 1) ^ n / (fact n * real (2 * n + 1)) * x ^ (2 * n + 1)"
  have "summable (\<lambda>n. \<bar>x\<bar> * ((x\<^sup>2) ^ n /\<^sub>R fact n))"
    using exp_converges [of "x\<^sup>2"] by (intro summable_mult) (rule sums_summable)
  moreover have "norm (?g n) \<le> \<bar>x\<bar> * ((x\<^sup>2) ^ n /\<^sub>R fact n)" for n
  proof -
    have "\<bar>x ^ (2 * n + 1)\<bar> = \<bar>x\<bar> * (x\<^sup>2) ^ n"
      by (simp add: power_mult abs_mult)
    then have "norm (?g n) = \<bar>x\<bar> * ((x\<^sup>2) ^ n / fact n) / real (2 * n + 1)"
      by (simp add: abs_mult power_abs del: of_nat_Suc of_nat_add power_Suc)
    also have "\<dots> \<le> \<bar>x\<bar> * ((x\<^sup>2) ^ n / fact n) / 1"
      by (intro divide_left_mono) (simp_all add: )
    finally show ?thesis by (simp add: divide_inverse mult.commute)
  qed
  ultimately have "summable ?g"
    by (rule summable_comparison_test')
  then obtain s where "?g sums s"
    by (auto simp: summable_def)
  from sums_if' [OF this]
  have "(\<lambda>k. if even k then 0 else ?g ((k - 1) div 2)) sums s" .
  moreover have "(if even k then 0 else ?g ((k - 1) div 2)) = gauss_coeff k * x ^ k" for k
    by (auto simp add: gauss_coeff_def elim!: oddE)
  ultimately show ?thesis
    by (simp add: summable_def) blast
qed

lemma diffs_gauss_coeff:
  "diffs gauss_coeff k = (if even k then (- 1) ^ (k div 2) / fact (k div 2) else 0)"
  by (auto simp add: diffs_def gauss_coeff_def simp del: of_nat_Suc)

lemma gauss_diffs_sum: "(\<Sum>k. diffs gauss_coeff k * x ^ k) = exp (- (x\<^sup>2))"
proof -
  let ?f = "\<lambda>n. (- (x\<^sup>2)) ^ n /\<^sub>R fact n"
  have "(\<lambda>k. if even k then ?f (k div 2) else (\<lambda>n. 0 :: real) ((k - 1) div 2)) sums (0 + exp (- (x\<^sup>2)))"
    by (rule sums_if) (rule sums_zero, rule exp_converges)
  moreover have "(if even k then ?f (k div 2) else 0) = diffs gauss_coeff k * x ^ k" for k
    by (auto simp add: diffs_gauss_coeff power_mult power_minus' divide_inverse mult.commute
        power_mult_distrib power2_eq_square elim!: evenE)
  ultimately have "(\<lambda>k. diffs gauss_coeff k * x ^ k) sums exp (- (x\<^sup>2))"
    by simp
  then show ?thesis by (rule sums_unique [symmetric])
qed

lemma DERIV_gauss_integral: "DERIV gauss_integral x :> exp (- (x\<^sup>2))"
proof -
  have "((\<lambda>x. \<Sum>k. gauss_coeff k * x ^ k) has_field_derivative (\<Sum>k. diffs gauss_coeff k * x ^ k)) (at x)"
    by (rule termdiffs_strong_converges_everywhere) (rule gauss_terms_summable)
  then show ?thesis
    by (simp add: gauss_diffs_sum gauss_integral_def [abs_def])
qed

lemma gauss_integral_0: "gauss_integral 0 = 0"
proof -
  have "gauss_coeff k * 0 ^ k = 0" for k
    by (cases k) (simp_all add: gauss_coeff_def)
  then have "(\<lambda>k. gauss_coeff k * 0 ^ k) = (\<lambda>k. 0)" by (rule ext)
  then show ?thesis by (simp only: gauss_integral_def suminf_zero)
qed

lemma gauss_integral_strict_mono: "x < y \<Longrightarrow> gauss_integral x < gauss_integral y"
  by (rule DERIV_pos_imp_increasing [of x y gauss_integral])
    (auto intro: DERIV_gauss_integral)

lemma gauss_integral_mono: "x \<le> y \<Longrightarrow> gauss_integral x \<le> gauss_integral y"
  using gauss_integral_strict_mono [of x y] by (cases "x = y") auto

lemma gauss_integral_odd: "gauss_integral (- x) = - gauss_integral x"
proof -
  have "DERIV (\<lambda>x. gauss_integral (- x) + gauss_integral x) x :> 0" for x
    by (auto intro!: derivative_eq_intros DERIV_gauss_integral [THEN DERIV_chain2])
  then have "\<forall>x. DERIV (\<lambda>x. gauss_integral (- x) + gauss_integral x) x :> 0" ..
  then have "gauss_integral (- x) + gauss_integral x = gauss_integral (- 0) + gauss_integral 0"
    by (rule DERIV_isconst_all)
  then show ?thesis by (simp add: gauss_integral_0)
qed

lemma gauss_integral_bounded: "gauss_integral x \<le> gauss_integral 1 + exp (- 1)"
proof (cases "x \<le> 1")
  case True
  then have "gauss_integral x \<le> gauss_integral 1" by (rule gauss_integral_mono)
  then show ?thesis using exp_ge_zero [of "- 1 :: real"] by linarith
next
  case False
  then have x: "1 \<le> x" by simp
  have "gauss_integral x + exp (- x) \<le> gauss_integral 1 + exp (- 1)"
  proof (rule DERIV_nonpos_imp_nonincreasing [OF x])
    fix t :: real
    assume t: "1 \<le> t" "t \<le> x"
    then have "t \<le> t\<^sup>2" by (simp add: power2_eq_square)
    then have "exp (- (t\<^sup>2)) - exp (- t) \<le> 0" by simp
    moreover have "DERIV (\<lambda>t. gauss_integral t + exp (- t)) t :> exp (- (t\<^sup>2)) - exp (- t)"
      by (auto intro!: derivative_eq_intros DERIV_gauss_integral)
    ultimately show "\<exists>y. DERIV (\<lambda>t. gauss_integral t + exp (- t)) t :> y \<and> y \<le> 0"
      by blast
  qed
  then show ?thesis using exp_ge_zero [of "- x"] by linarith
qed

lemma gauss_integral_le_total: "gauss_integral x \<le> gauss_total"
  unfolding gauss_total_def
  by (rule cSUP_upper) (auto intro!: bdd_aboveI2 [where M = "gauss_integral 1 + exp (- 1)"] gauss_integral_bounded)

lemma gauss_integral_less_total: "gauss_integral x < gauss_total"
  using gauss_integral_strict_mono [of x "x + 1"] gauss_integral_le_total [of "x + 1"] by simp

lemma gauss_total_pos: "0 < gauss_total"
  using gauss_integral_less_total [of 0] by (simp add: gauss_integral_0)

lemma gauss_integral_approaches_total:
  assumes "c < gauss_total"
  shows "\<exists>x. c < gauss_integral x"
proof (rule ccontr)
  assume "\<not> (\<exists>x. c < gauss_integral x)"
  then have "gauss_integral x \<le> c" for x by (simp add: not_less)
  then have "gauss_total \<le> c"
    unfolding gauss_total_def by (intro cSUP_least) auto
  with assms show False by simp
qed


text \<open>
  Hence the standard normal distribution function is continuous and increasing, with a
  derivative proportional to \<open>exp (- z\<^sup>2 / 2)\<close> and values strictly between 0 and 1 that
  come as close to 0 and to 1 as one likes; and it has a quantile below 0 for every
  fraction below one half.
\<close>

lemma erf_strict_mono: "x < y \<Longrightarrow> erf x < erf y"
  by (simp add: erf_def gauss_integral_strict_mono gauss_total_pos divide_strict_right_mono)

lemma erf_less_1: "erf x < 1"
  using gauss_integral_less_total [of x] gauss_total_pos by (simp add: erf_def)

lemma erf_minus: "erf (- x) = - erf x"
  by (simp add: erf_def gauss_integral_odd)

lemma erf_greater_minus_1: "- 1 < erf x"
  using erf_less_1 [of "- x"] by (simp add: erf_minus)

lemma erf_0: "erf 0 = 0"
  by (simp add: erf_def gauss_integral_0)

lemma std_normal_cdf_strict_mono: "x < y \<Longrightarrow> std_normal_cdf x < std_normal_cdf y"
  by (simp add: std_normal_cdf_def erf_strict_mono divide_strict_right_mono)

lemma std_normal_cdf_mono: "x \<le> y \<Longrightarrow> std_normal_cdf x \<le> std_normal_cdf y"
  using std_normal_cdf_strict_mono [of x y] by (cases "x = y") auto

lemma std_normal_cdf_pos: "0 < std_normal_cdf z"
  using erf_greater_minus_1 [of "z / sqrt 2"] by (simp add: std_normal_cdf_def)

lemma std_normal_cdf_less_1: "std_normal_cdf z < 1"
  using erf_less_1 [of "z / sqrt 2"] by (simp add: std_normal_cdf_def)

lemma std_normal_cdf_0: "std_normal_cdf 0 = 1 / 2"
  by (simp add: std_normal_cdf_def erf_0)

lemma isCont_gauss_integral: "isCont gauss_integral x"
  using DERIV_gauss_integral by (rule DERIV_isCont)

lemma isCont_std_normal_cdf: "isCont std_normal_cdf z"
proof -
  have "isCont (\<lambda>z. gauss_integral (z / sqrt 2)) z"
    by (rule isCont_o2 [OF _ isCont_gauss_integral]) simp
  then have "isCont (\<lambda>z. (1 + gauss_integral (z / sqrt 2) / gauss_total) / 2) z"
    by (intro continuous_intros) (simp_all add: gauss_total_pos less_imp_neq [THEN not_sym])
  then show ?thesis
    by (simp add: std_normal_cdf_def [abs_def] erf_def)
qed

lemma std_normal_cdf_below: 
  assumes "0 < q"
  shows "\<exists>z. std_normal_cdf z < q"
proof -
  have "(1 - 2 * q) * gauss_total < gauss_total"
    using assms gauss_total_pos by simp
  then obtain x where x: "(1 - 2 * q) * gauss_total < gauss_integral x"
    using gauss_integral_approaches_total by blast
  then have "1 - 2 * q < erf x"
    using gauss_total_pos by (simp add: erf_def pos_less_divide_eq)
  then have "std_normal_cdf (- (x * sqrt 2)) < q"
    by (simp add: std_normal_cdf_def erf_minus)
  then show ?thesis ..
qed

lemma DERIV_std_normal_cdf:
  "DERIV std_normal_cdf z :> exp (- (z\<^sup>2 / 2)) / (2 * sqrt 2 * gauss_total)"
proof -
  have "DERIV (\<lambda>z. gauss_integral (z / sqrt 2)) z :> exp (- ((z / sqrt 2)\<^sup>2)) * (1 / sqrt 2)"
    by (rule DERIV_chain2 [OF DERIV_gauss_integral]) (rule DERIV_cdivide [OF DERIV_ident])
  then have "DERIV (\<lambda>z. (1 + gauss_integral (z / sqrt 2) / gauss_total) / 2) z
      :> (0 + exp (- ((z / sqrt 2)\<^sup>2)) * (1 / sqrt 2) / gauss_total) / 2"
    by (intro DERIV_cdivide DERIV_add DERIV_const)
  moreover have "(z / sqrt 2)\<^sup>2 = z\<^sup>2 / 2"
    by (simp add: power_divide)
  ultimately show ?thesis
    by (simp add: std_normal_cdf_def [abs_def] erf_def [abs_def] mult_ac)
qed

lemma std_normal_cdf_above:
  assumes "q < 1"
  shows "\<exists>z. q < std_normal_cdf z"
proof -
  have "0 < 1 - q" using assms by simp
  then obtain z where "std_normal_cdf z < 1 - q"
    using std_normal_cdf_below by blast
  then have "q < std_normal_cdf (- z)"
    by (simp add: std_normal_cdf_def erf_minus)
  then show ?thesis ..
qed

lemma std_normal_quantile_exists:
  assumes "0 < q" "q \<le> 1 / 2"
  shows "\<exists>z\<le>0. std_normal_cdf z = q"
proof -
  obtain a where a: "std_normal_cdf a < q"
    using std_normal_cdf_below [OF assms(1)] ..
  have "a < 0"
  proof (rule ccontr)
    assume "\<not> a < 0"
    then have "std_normal_cdf 0 \<le> std_normal_cdf a" by (intro std_normal_cdf_mono) simp
    with a assms(2) show False by (simp add: std_normal_cdf_0)
  qed
  have "\<exists>z. a \<le> z \<and> z \<le> 0 \<and> std_normal_cdf z = q"
    using a assms(2) \<open>a < 0\<close>
    by (intro IVT) (simp_all add: std_normal_cdf_0 isCont_std_normal_cdf)
  then show ?thesis by blast
qed

lemma std_normal_quantile:
  assumes "0 < q" "q < 1 / 2"
  shows "std_normal_cdf (std_normal_quantile q) = q" and "std_normal_quantile q < 0"
proof -
  obtain z where z: "z \<le> 0" "std_normal_cdf z = q"
    using std_normal_quantile_exists [of q] assms by auto
  have unique: "z' = z" if "std_normal_cdf z' = q" for z'
    using that z(2) std_normal_cdf_strict_mono [of z z'] std_normal_cdf_strict_mono [of z' z]
    by (cases z z' rule: linorder_cases) auto
  have eq: "std_normal_quantile q = z"
    unfolding std_normal_quantile_def using z(2) unique by (rule the_equality)
  show "std_normal_cdf (std_normal_quantile q) = q"
    using z(2) eq by simp
  have "z \<noteq> 0" using z(2) assms(2) by (auto simp add: std_normal_cdf_0)
  then show "std_normal_quantile q < 0" using z(1) eq by simp
qed

lemma shape_pos:
  assumes "0 < pdr" "pdr < median" "0 < q" "q < 1 / 2"
  shows "0 < shape (buildLogNormalModel q median pdr)"
proof -
  have "ln pdr < ln median" using assms(1,2) by simp
  then show ?thesis
    using std_normal_quantile(2) [OF assms(3,4)]
    by (simp add: buildLogNormalModel_def divide_neg_neg)
qed

lemma lognormal_cdf_at_median:
  assumes "0 < pdr" "pdr < median"
  shows "lognormal_cdf (buildLogNormalModel q median pdr) median = 1 / 2"
  using assms by (simp add: lognormal_cdf_def buildLogNormalModel_def std_normal_cdf_0)

lemma lognormal_cdf_at_pdr:
  assumes "0 < pdr" "pdr < median" "0 < q" "q < 1 / 2"
  shows "lognormal_cdf (buildLogNormalModel q median pdr) pdr = q"
proof -
  have "ln pdr - ln median \<noteq> 0" using assms(1,2) by simp
  then show ?thesis
    using assms std_normal_quantile [OF assms(3,4)]
    by (simp add: lognormal_cdf_def buildLogNormalModel_def)
qed

lemma lognormal_cdf_mono:
  assumes "0 < shape m" "x1 \<le> x2"
  shows "lognormal_cdf m x1 \<le> lognormal_cdf m x2"
proof (cases "x1 \<le> 0")
  case True
  then show ?thesis
    using std_normal_cdf_pos [of "(ln x2 - location m) / shape m"]
    by (simp add: lognormal_cdf_def less_imp_le)
next
  case False
  then have "ln x1 \<le> ln x2" using assms(2) by simp
  then have "(ln x1 - location m) / shape m \<le> (ln x2 - location m) / shape m"
    using assms(1) by (simp add: divide_right_mono)
  then show ?thesis
    using False assms(2) by (simp add: lognormal_cdf_def std_normal_cdf_mono)
qed

lemma complementaryPercentile_bounds:
  "0 \<le> complementaryPercentile m x \<and> complementaryPercentile m x \<le> 1"
  using std_normal_cdf_pos [of "(ln x - location m) / shape m"]
    std_normal_cdf_less_1 [of "(ln x - location m) / shape m"]
  by (simp add: complementaryPercentile_def lognormal_cdf_def less_imp_le)


subsection \<open>The distribution scorer and the audit\<close>

lemma complementaryPercentile_0: "complementaryPercentile m 0 = 1"
  by (simp add: complementaryPercentile_def lognormal_cdf_def)

lemma complementaryPercentile_antitone:
  assumes "0 < shape m" "x1 \<le> x2"
  shows "complementaryPercentile m x2 \<le> complementaryPercentile m x1"
  using lognormal_cdf_mono [OF assms] by (simp add: complementaryPercentile_def)

lemma clamped_score_unit_interval:
  assumes "0 \<le> p" "p \<le> 1"
  shows "Math_round (Math_max_0 (Math_min_100 (times100 (Fin p)))) =
    Fin (of_int (round (max 0 (min 100 (nearest (100 * p))))))"
  by (simp add: nearest_double_unit_interval [OF assms])

lemma clamped_score_mono:
  assumes "0 \<le> p2" "p2 \<le> p1"
  shows "round (max 0 (min 100 (nearest (100 * p2))))
    \<le> round (max 0 (min 100 (nearest (100 * p1))))"
proof -
  have "nearest (100 * p2) \<le> nearest (100 * p1)"
    using assms by (intro nearest_mono) simp_all
  then show ?thesis
    by (intro round_mono) (simp add: max_def min_def)
qed

text \<open>
  C6: the complementary percentile is antitone. For every model built from a calibration
  with 0 < pointOfDiminishingReturns < median (and a reference fraction between 0 and one
  half, which is what places the point of diminishing returns below the median), and for
  all measurements 0 \<le> x1 < x2, the complementary percentile of x2 is at most that of
  x1; and the score the audit computes from it for x2 is at most the score for x1.
\<close>

theorem C6_complementaryPercentile_antitone:
  assumes "0 < pointOfDiminishingReturns" and "pointOfDiminishingReturns < median"
    and "0 < q" and "q < 1 / 2"
    and "0 \<le> x1" and "x1 < x2"
  shows "complementaryPercentile (buildLogNormalModel q median pointOfDiminishingReturns) x2
         \<le> complementaryPercentile (buildLogNormalModel q median pointOfDiminishingReturns) x1 \<and>
    (\<exists>s1 s2.
       Math_round (Math_max_0 (Math_min_100 (times100 (Fin (complementaryPercentile
         (buildLogNormalModel q median pointOfDiminishingReturns) x1))))) = Fin (of_int s1) \<and>
       Math_round (Math_max_0 (Math_min_100 (times100 (Fin (complementaryPercentile
         (buildLogNormalModel q median pointOfDiminishingReturns) x2))))) = Fin (of_int s2) \<and>
       s2 \<le> s1)"
proof -
  let ?m = "buildLogNormalModel q median pointOfDiminishingReturns"
  have "0 < shape ?m"
    using assms(1-4) by (rule shape_pos)
  then have le: "complementaryPercentile ?m x2 \<le> complementaryPercentile ?m x1"
    using assms(6) by (intro complementaryPercentile_antitone) simp_all
  have b1: "0 \<le> complementaryPercentile ?m x1" "complementaryPercentile ?m x1 \<le> 1"
    and b2: "0 \<le> complementaryPercentile ?m x2" "complementaryPercentile ?m x2 \<le> 1"
    using complementaryPercentile_bounds by simp_all
  show ?thesis
    using le clamped_score_mono [OF b2(1) le]
    by (simp only: clamped_score_unit_interval [OF b1] clamped_score_unit_interval [OF b2])
      blast
qed

theorem C6_complementaryPercentile_antitone_witness:
  "complementaryPercentile (buildLogNormalModel (1 / 10) 5500 1250) 5500
     \<le> complementaryPercentile (buildLogNormalModel (1 / 10) 5500 1250) 0 \<and>
   (\<exists>s1 s2.
      Math_round (Math_max_0 (Math_min_100 (times100 (Fin (complementaryPercentile
        (buildLogNormalModel (1 / 10) 5500 1250) 0))))) = Fin (of_int s1) \<and>
      Math_round (Math_max_0 (Math_min_100 (times100 (Fin (complementaryPercentile
        (buildLogNormalModel (1 / 10) 5500 1250) 5500))))) = Fin (of_int s2) \<and>
      s2 \<le> s1)"
proof -
  have "(0 :: real) < 1250" and "(1250 :: real) < 5500" and "(0 :: real) < 1 / 10"
    and "(1 / 10 :: real) < 1 / 2" and "(0 :: real) \<le> 0" and "(0 :: real) < 5500"
    by simp_all
  then show ?thesis
    by (rule C6_complementaryPercentile_antitone)
qed

text \<open>
  C7: for a measurement of exactly 0 the audit returns the score 100 and the raw value 0.
  The cumulative distribution function of the log-normal distribution is 0 at 0, so the
  complementary percentile is 1 there and 100 * 1 is the upper bound of the clamp.
\<close>

theorem C7_zero_measurement:
  assumes "isArray (traceContents a)"
    and "speedline h (traceContents a) = Inr results"
    and "getProp results ''speedIndex'' = Inr (Num (Fin 0))"
    and "getLogNormalDistribution h = spec_getLogNormalDistribution q"
  shows "complementaryPercentile
           (buildLogNormalModel q SCORING_MEDIAN SCORING_POINT_OF_DIMINISHING_RETURNS) 0 = 1 \<and>
    (\<exists>r. audit h a = Inr r \<and> ar_score r = Fin 100 \<and> ar_rawValue r = Some (Fin 0) \<and>
         ar_debugString r = Undefined)"
proof -
  let ?m = "buildLogNormalModel q SCORING_MEDIAN SCORING_POINT_OF_DIMINISHING_RETURNS"
  have d: "getLogNormalDistribution h SCORING_MEDIAN SCORING_POINT_OF_DIMINISHING_RETURNS =
      Inr (spec_distribution ?m)"
    by (simp add: assms(4) spec_getLogNormalDistribution_def)
  have p: "spec_distribution ?m (Num (Fin 0)) = Inr (Fin 1)"
    by (simp add: spec_distribution_def complementaryPercentile_0)
  have "times100 (Fin 1) = Fin 100"
    by (simp add: nearest_double_100)
  then show ?thesis
    using audit_scored [OF assms(1,2) d assms(3) p]
    by (simp add: complementaryPercentile_0 generateAuditResult_def)
qed

theorem C7_zero_measurement_witness:
  "complementaryPercentile
     (buildLogNormalModel (1 / 10) SCORING_MEDIAN SCORING_POINT_OF_DIMINISHING_RETURNS) 0 = 1 \<and>
   (\<exists>r. audit (spec_host (1 / 10) (Inr (Obj [(''speedIndex'', Num (Fin 0))])))
          \<lparr>traceContents = Arr []\<rparr> = Inr r \<and>
        ar_score r = Fin 100 \<and> ar_rawValue r = Some (Fin 0) \<and> ar_debugString r = Undefined)"
  using C7_zero_measurement
    [of "\<lparr>traceContents = Arr []\<rparr>"
        "spec_host (1 / 10) (Inr (Obj [(''speedIndex'', Num (Fin 0))]))"
        "Obj [(''speedIndex'', Num (Fin 0))]" "1 / 10"]
  by (simp add: spec_host_def)

end
